theory Spec2Isabelle
  imports Main
begin

section \<open>Python values\<close>

text \<open>
  The dictionaries that travel through \<^verbatim>\<open>lazyauth/auth.py\<close> (the claim set handed to
  \<^verbatim>\<open>jwt.encode\<close>, the payload \<^verbatim>\<open>jwt.decode\<close> returns, the JSON bodies of the provider)
  hold dynamically typed values. A dictionary is an association list read with
  \<open>map_of\<close>. A JSON number is an integer or a finite float, \<open>PFloat m e\<close> standing for
  \<open>m * 2 ^ e\<close>; a string is the list of its UTF-8 bytes. \<open>PDatetime\<close> carries an aware UTC
  \<^verbatim>\<open>datetime\<close> as microseconds since the epoch.
\<close>

datatype pyval =
    PNone
  | PBool bool
  | PInt int
  | PFloat int int
  | PStr string
  | PList "pyval list"
  | PDict "(string \<times> pyval) list"
  | PDatetime int

type_synonym pydict = "(string \<times> pyval) list"

text \<open>Truth value testing, as \<^verbatim>\<open>a or b\<close> and \<^verbatim>\<open>if token:\<close> apply it.\<close>

fun truthy :: "pyval \<Rightarrow> bool" where
  "truthy PNone = False"
| "truthy (PBool b) = b"
| "truthy (PInt i) = (i \<noteq> 0)"
| "truthy (PFloat m e) = (m \<noteq> 0)"
| "truthy (PStr s) = (s \<noteq> [])"
| "truthy (PList xs) = (xs \<noteq> [])"
| "truthy (PDict kvs) = (kvs \<noteq> [])"
| "truthy (PDatetime t) = True"

definition py_or :: "pyval \<Rightarrow> pyval \<Rightarrow> pyval" where
  "py_or a b = (if truthy a then a else b)"

text \<open>\<^verbatim>\<open>d.get(k, default)\<close>; \<^verbatim>\<open>d.get(k)\<close> is \<open>dict_get d k PNone\<close>.\<close>

definition dict_get :: "pydict \<Rightarrow> string \<Rightarrow> pyval \<Rightarrow> pyval" where
  "dict_get d k dflt = (case map_of d k of None \<Rightarrow> dflt | Some v \<Rightarrow> v)"

section \<open>Errors\<close>

text \<open>
  Every exception that can leave a function of \<^verbatim>\<open>auth.py\<close>. \<open>HTTPException\<close> carries
  the status code and the detail string; the others are exceptions the module does not
  catch: pydantic's \<open>ValidationError\<close> from a model constructor, \<open>AttributeError\<close> from
  \<^verbatim>\<open>.get\<close> on a JSON value that is not an object, \<open>TypeError\<close> from \<^verbatim>\<open>**token_data\<close> on a
  value that is not a mapping, \<open>JSONDecodeError\<close> from \<^verbatim>\<open>response.json()\<close>,
  \<open>UnicodeEncodeError\<close> from a header value that is not ASCII, and \<open>LibraryError\<close>, with
  the name of its class, for any other exception that \<^verbatim>\<open>jwt.decode\<close> raises and that is
  not a \<^verbatim>\<open>JWTError\<close>.
\<close>

datatype error =
    HTTPException nat string
  | ValidationError
  | AttributeError
  | TypeError
  | JSONDecodeError
  | UnicodeEncodeError
  | LibraryError string

section \<open>lazyauth/config.py and lazyauth/models.py\<close>

record Settings =
  oauth2_client_id :: string
  oauth2_client_secret :: string
  oauth2_authorization_url :: string
  oauth2_token_url :: string
  oauth2_user_info_url :: string
  oauth2_redirect_uri :: string
  jwt_secret_key :: string
  jwt_algorithm :: string
  jwt_expiration_minutes :: int
  app_host :: string
  app_port :: int

text \<open>
  The field \<^verbatim>\<open>id\<close> of \<^verbatim>\<open>User\<close> is \<open>user_id\<close> here, and the fields of \<^verbatim>\<open>OAuth2Token\<close> carry the
  prefix \<open>oauth_\<close>, since \<^verbatim>\<open>Token\<close> declares the same names.
\<close>

record User =
  user_id :: string
  email :: "string option"
  name :: "string option"
  provider :: string
  provider_data :: pydict

record OAuth2Token =
  oauth_access_token :: string
  oauth_token_type :: string
  oauth_expires_in :: "int option"
  oauth_refresh_token :: "string option"
  oauth_scope :: "string option"

record Token =
  access_token :: string
  token_type :: string
  expires_in :: "int option"

text \<open>Sequencing of steps that may raise: the first exception ends the computation.\<close>

definition bind_err :: "error + 'a \<Rightarrow> ('a \<Rightarrow> error + 'b) \<Rightarrow> error + 'b" where
  "bind_err r f = (case r of Inl x \<Rightarrow> Inl x | Inr v \<Rightarrow> f v)"

text \<open>
  Field validation of the pydantic models. A field declared \<^verbatim>\<open>str\<close> takes a string only,
  \<^verbatim>\<open>Optional[str]\<close> a string or \<^verbatim>\<open>None\<close>, \<^verbatim>\<open>dict\<close> a dictionary. For an \<^verbatim>\<open>int\<close> field
  pydantic also coerces bools, integral floats and numeric strings; which values it takes
  is the library's matter, so its validator of an \<^verbatim>\<open>int\<close> field is a parameter of the
  model: \<open>lax_int v\<close> is the integer that \<open>v\<close> is taken for, or \<open>None\<close> when \<open>v\<close> is refused.
\<close>

record pydantic =
  lax_int :: "pyval \<Rightarrow> int option"


fun validate_str :: "pyval \<Rightarrow> error + string" where
  "validate_str (PStr s) = Inr s"
| "validate_str v = Inl ValidationError"

fun validate_opt_str :: "pyval \<Rightarrow> error + string option" where
  "validate_opt_str PNone = Inr None"
| "validate_opt_str (PStr s) = Inr (Some s)"
| "validate_opt_str v = Inl ValidationError"

definition validate_opt_int :: "pydantic \<Rightarrow> pyval \<Rightarrow> error + int option" where
  "validate_opt_int V v =
     (if v = PNone then Inr None
      else case lax_int V v of None \<Rightarrow> Inl ValidationError | Some i \<Rightarrow> Inr (Some i))"

fun validate_dict :: "pyval \<Rightarrow> error + pydict" where
  "validate_dict (PDict d) = Inr d"
| "validate_dict v = Inl ValidationError"

text \<open>\<^verbatim>\<open>User(id=.., email=.., name=.., provider=.., provider_data=..)\<close>\<close>

definition new_User :: "pyval \<Rightarrow> pyval \<Rightarrow> pyval \<Rightarrow> pyval \<Rightarrow> pyval \<Rightarrow> error + User" where
  "new_User i e n p d =
     bind_err (validate_str i) (\<lambda>i'.
     bind_err (validate_opt_str e) (\<lambda>e'.
     bind_err (validate_opt_str n) (\<lambda>n'.
     bind_err (validate_str p) (\<lambda>p'.
     bind_err (validate_dict d) (\<lambda>d'.
       Inr \<lparr>user_id = i', email = e', name = n', provider = p', provider_data = d'\<rparr>)))))"

text \<open>
  \<^verbatim>\<open>OAuth2Token(**token_data)\<close>: unpacking needs a mapping; the two required fields must
  be present; keys the model does not declare are ignored.
\<close>

fun required :: "pydict \<Rightarrow> string \<Rightarrow> error + pyval" where
  "required d k = (case map_of d k of None \<Rightarrow> Inl ValidationError | Some v \<Rightarrow> Inr v)"

fun new_OAuth2Token :: "pydantic \<Rightarrow> pyval \<Rightarrow> error + OAuth2Token" where
  "new_OAuth2Token V (PDict d) =
     bind_err (bind_err (required d ''access_token'') validate_str) (\<lambda>a'.
     bind_err (bind_err (required d ''token_type'') validate_str) (\<lambda>t'.
     bind_err (validate_opt_int V (dict_get d ''expires_in'' PNone)) (\<lambda>e'.
     bind_err (validate_opt_str (dict_get d ''refresh_token'' PNone)) (\<lambda>r'.
     bind_err (validate_opt_str (dict_get d ''scope'' PNone)) (\<lambda>s'.
       Inr \<lparr>oauth_access_token = a', oauth_token_type = t', oauth_expires_in = e',
            oauth_refresh_token = r', oauth_scope = s'\<rparr>)))))"
| "new_OAuth2Token V v = Inl TypeError"

section \<open>The libraries behind the module\<close>

text \<open>
  \<^verbatim>\<open>jose.jwt\<close> is not part of the repository: its two entry points are parameters of
  the model. \<open>jwt_encode claims key algorithm\<close> is the encoded token.
  \<open>jwt_decode token key algorithms now\<close> is the payload, or \<open>JWTError\<close> with its message
  when the library raises that exception, or \<open>Raises\<close> with the name of the class when
  it raises any other (a \<^verbatim>\<open>TypeError\<close> on \<^verbatim>\<open>exp: null\<close>, for one). The library reads the
  clock to check \<^verbatim>\<open>exp\<close>, so the time of the call is an argument.
\<close>

datatype decoded =
    JWTError string
  | Raises string
  | Payload pydict

record jose =
  jwt_encode :: "pydict \<Rightarrow> string \<Rightarrow> string \<Rightarrow> string"
  jwt_decode :: "string \<Rightarrow> string \<Rightarrow> string list \<Rightarrow> int \<Rightarrow> decoded"

text \<open>
  The identity provider, reached through \<^verbatim>\<open>httpx.AsyncClient\<close>. A call either raises a
  transport error (an \<^verbatim>\<open>httpx.HTTPError\<close>, with its text) or returns a response: the
  status code, the text \<^verbatim>\<open>str(e)\<close> of the \<^verbatim>\<open>HTTPStatusError\<close> that \<^verbatim>\<open>raise_for_status\<close>
  would raise for it, and the body parsed as JSON (\<open>None\<close> when it is not JSON).
\<close>

datatype http_reply =
    TransportError string
  | Response nat string "pyval option"

record provider =
  client_post :: "string \<Rightarrow> (string \<times> string) list \<Rightarrow> http_reply"
  client_get :: "string \<Rightarrow> (string \<times> string) list \<Rightarrow> http_reply"

datatype request =
    POST string "(string \<times> string) list"
  | GET string "(string \<times> string) list"

text \<open>\<^verbatim>\<open>raise_for_status\<close> lets the 2xx codes pass.\<close>

definition is_success :: "nat \<Rightarrow> bool" where
  "is_success status = (200 \<le> status \<and> status \<le> 299)"

text \<open>
  One call followed by \<^verbatim>\<open>raise_for_status()\<close> and \<^verbatim>\<open>.json()\<close>, inside the
  \<^verbatim>\<open>try ... except httpx.HTTPError\<close> of \<^verbatim>\<open>auth_callback\<close>: an \<^verbatim>\<open>httpx.HTTPError\<close> becomes the
  \<^verbatim>\<open>HTTPException\<close> with status 500, a body that is not JSON raises past the handler.
\<close>

fun checked_json :: "http_reply \<Rightarrow> error + pyval" where
  "checked_json (TransportError e) =
     Inl (HTTPException 500 (''Failed to authenticate with provider: '' @ e))"
| "checked_json (Response status e body) =
     (if \<not> is_success status
      then Inl (HTTPException 500 (''Failed to authenticate with provider: '' @ e))
      else case body of None \<Rightarrow> Inl JSONDecodeError | Some v \<Rightarrow> Inr v)"

section \<open>lazyauth/auth.py\<close>

subsection \<open>The session store\<close>

text \<open>
  \<^verbatim>\<open>sessions: Dict[str, tuple[str, datetime]]\<close>, the module's only mutable state. Times
  are microseconds since the epoch, the resolution of \<^verbatim>\<open>datetime\<close>, so that
  \<^verbatim>\<open>(current_time - timestamp).total_seconds() > 600\<close> reads \<open>now - ts > 600000000\<close>.
\<close>

type_synonym sessions = "string \<rightharpoonup> (string \<times> int)"

definition cleanup_expired_sessions :: "int \<Rightarrow> sessions \<Rightarrow> sessions" where
  "cleanup_expired_sessions current_time sessions =
     (\<lambda>state. case sessions state of
        None \<Rightarrow> None
      | Some (status, timestamp) \<Rightarrow>
          if current_time - timestamp > 600000000 then None else Some (status, timestamp))"

subsection \<open>Tokens\<close>

definition to_encode :: "Settings \<Rightarrow> int \<Rightarrow> User \<Rightarrow> pydict" where
  "to_encode S now user =
     [(''sub'', PStr (user_id user)),
      (''email'', (case email user of None \<Rightarrow> PNone | Some e \<Rightarrow> PStr e)),
      (''name'', (case name user of None \<Rightarrow> PNone | Some n \<Rightarrow> PStr n)),
      (''provider'', PStr (provider user)),
      (''exp'', PDatetime (now + jwt_expiration_minutes S * 60000000))]"

definition create_jwt_token :: "jose \<Rightarrow> Settings \<Rightarrow> int \<Rightarrow> User \<Rightarrow> Token" where
  "create_jwt_token J S now user =
     \<lparr>access_token = jwt_encode J (to_encode S now user) (jwt_secret_key S) (jwt_algorithm S),
      token_type = ''bearer'',
      expires_in = Some (jwt_expiration_minutes S * 60)\<rparr>"

text \<open>
  \<open>Inr None\<close> is the \<^verbatim>\<open>return None\<close> of the source, \<open>Inr (Some user)\<close> the user, and \<open>Inl\<close>
  an exception that \<^verbatim>\<open>except JWTError\<close> does not catch: one of another class from the
  library, or the validation error of the \<^verbatim>\<open>User\<close> constructor.
\<close>

definition verify_jwt_token :: "jose \<Rightarrow> Settings \<Rightarrow> int \<Rightarrow> string \<Rightarrow> error + User option" where
  "verify_jwt_token J S now token =
     (case jwt_decode J token (jwt_secret_key S) [jwt_algorithm S] now of
        JWTError e \<Rightarrow> Inr None
      | Raises c \<Rightarrow> Inl (LibraryError c)
      | Payload payload \<Rightarrow>
          (let uid = dict_get payload ''sub'' PNone in
           if uid = PNone then Inr None
           else bind_err
                  (new_User uid (dict_get payload ''email'' PNone) (dict_get payload ''name'' PNone)
                     (dict_get payload ''provider'' (PStr ''unknown'')) (PDict []))
                  (\<lambda>user. Inr (Some user))))"

subsection \<open>Requests\<close>

text \<open>
  Of a request the module reads \<^verbatim>\<open>request.headers.get("Authorization")\<close> and
  \<^verbatim>\<open>request.cookies.get("access_token")\<close>.
\<close>

record Request =
  authorization :: "string option"
  cookie_access_token :: "string option"

text \<open>\<^verbatim>\<open>auth_header.replace("Bearer ", "")\<close> removes every occurrence, left to right.\<close>

fun remove_bearer :: "string \<Rightarrow> string" where
  "remove_bearer [] = []"
| "remove_bearer (c # cs) =
     (if take 7 (c # cs) = ''Bearer '' then remove_bearer (drop 6 cs) else c # remove_bearer cs)"

definition startswith_bearer :: "string \<Rightarrow> bool" where
  "startswith_bearer h = (take 7 h = ''Bearer '')"

text \<open>Second half of \<^verbatim>\<open>get_current_user\<close>: the cookie, then the 401.\<close>

definition check_cookie :: "jose \<Rightarrow> Settings \<Rightarrow> int \<Rightarrow> Request \<Rightarrow> error + User" where
  "check_cookie J S now req =
     (case cookie_access_token req of
        None \<Rightarrow> Inl (HTTPException 401 ''Not authenticated'')
      | Some token \<Rightarrow>
          if token = [] then Inl (HTTPException 401 ''Not authenticated'')
          else bind_err (verify_jwt_token J S now token) (\<lambda>r.
                 case r of
                   Some user \<Rightarrow> Inr user
                 | None \<Rightarrow> Inl (HTTPException 401 ''Not authenticated'')))"

definition get_current_user :: "jose \<Rightarrow> Settings \<Rightarrow> int \<Rightarrow> Request \<Rightarrow> error + User" where
  "get_current_user J S now req =
     (case authorization req of
        None \<Rightarrow> check_cookie J S now req
      | Some auth_header \<Rightarrow>
          if auth_header \<noteq> [] \<and> startswith_bearer auth_header
          then bind_err (verify_jwt_token J S now (remove_bearer auth_header)) (\<lambda>r.
                 case r of
                   Some user \<Rightarrow> Inr user
                 | None \<Rightarrow> check_cookie J S now req)
          else check_cookie J S now req)"

subsection \<open>The endpoints\<close>

text \<open>
  \<^verbatim>\<open>GET /auth/login\<close>. The nonce drawn by \<^verbatim>\<open>secrets.token_urlsafe(32)\<close> and the time of
  the call are arguments; the two clock reads of one call are the same instant. The
  authorization URL is kept as the base URL and the parameter list that
  \<^verbatim>\<open>urlencode\<close> receives.
\<close>

record LoginResponse =
  authorization_url :: "string \<times> (string \<times> string) list"
  state :: string
  login_message :: string

definition login :: "Settings \<Rightarrow> string \<Rightarrow> int \<Rightarrow> sessions \<Rightarrow> LoginResponse \<times> sessions" where
  "login S st now sessions =
     (let sessions' = (cleanup_expired_sessions now sessions)(st \<mapsto> (''pending'', now));
          params = [(''client_id'', oauth2_client_id S),
                    (''redirect_uri'', oauth2_redirect_uri S),
                    (''response_type'', ''code''),
                    (''state'', st),
                    (''scope'', ''openid profile email'')]
      in (\<lparr>authorization_url = (oauth2_authorization_url S, params),
           state = st,
           login_message = ''Redirect user to authorization_url to complete login''\<rparr>,
          sessions'))"

text \<open>The form posted to the token endpoint, and the header of the user-info call.\<close>

definition token_form :: "Settings \<Rightarrow> string \<Rightarrow> (string \<times> string) list" where
  "token_form S code =
     [(''grant_type'', ''authorization_code''),
      (''code'', code),
      (''redirect_uri'', oauth2_redirect_uri S),
      (''client_id'', oauth2_client_id S),
      (''client_secret'', oauth2_client_secret S)]"

definition bearer_header :: "OAuth2Token \<Rightarrow> (string \<times> string) list" where
  "bearer_header oauth_token = [(''Authorization'', ''Bearer '' @ oauth_access_token oauth_token)]"

text \<open>
  httpx encodes a header value as ASCII before anything is sent, and raises
  \<^verbatim>\<open>UnicodeEncodeError\<close>, which is not an \<^verbatim>\<open>httpx.HTTPError\<close>, when it cannot: when the value
  has a byte above 127.
\<close>

definition is_ascii :: "string \<Rightarrow> bool" where
  "is_ascii s = list_all (\<lambda>c. (of_char c :: nat) < 128) s"

text \<open>
  The \<^verbatim>\<open>async with httpx.AsyncClient()\<close> block of \<^verbatim>\<open>auth_callback\<close>: the result is the
  \<^verbatim>\<open>user_data\<close> or the exception that ends the block, together with the requests that
  were sent, in order.
\<close>

definition provider_exchange ::
  "pydantic \<Rightarrow> provider \<Rightarrow> Settings \<Rightarrow> string \<Rightarrow> (error + pyval) \<times> request list" where
  "provider_exchange V P S code =
     (let post_req = POST (oauth2_token_url S) (token_form S code) in
      case checked_json (client_post P (oauth2_token_url S) (token_form S code)) of
        Inl e \<Rightarrow> (Inl e, [post_req])
      | Inr token_data \<Rightarrow>
          (case new_OAuth2Token V token_data of
             Inl e \<Rightarrow> (Inl e, [post_req])
           | Inr oauth_token \<Rightarrow>
               if \<not> is_ascii (oauth_access_token oauth_token)
               then (Inl UnicodeEncodeError, [post_req])
               else
                 (checked_json (client_get P (oauth2_user_info_url S) (bearer_header oauth_token)),
                  [post_req, GET (oauth2_user_info_url S) (bearer_header oauth_token)])))"

text \<open>\<^verbatim>\<open>User(id=user_data.get("id") or user_data.get("sub", "unknown"), ...)\<close>\<close>

fun user_from_provider :: "pyval \<Rightarrow> error + User" where
  "user_from_provider (PDict user_data) =
     new_User
       (py_or (dict_get user_data ''id'' PNone) (dict_get user_data ''sub'' (PStr ''unknown'')))
       (dict_get user_data ''email'' PNone)
       (py_or (dict_get user_data ''name'' PNone) (dict_get user_data ''display_name'' PNone))
       (PStr ''oauth2'')
       (PDict user_data)"
| "user_from_provider v = Inl AttributeError"

record Cookie =
  key :: string
  cookie_value :: string
  httponly :: bool
  max_age :: "int option"
  samesite :: string
  secure :: bool

record CallbackResponse =
  message :: string
  user :: User
  token :: Token
  set_cookie :: Cookie

definition callback_response :: "User \<Rightarrow> Token \<Rightarrow> CallbackResponse" where
  "callback_response u t =
     \<lparr>message = ''Authentication successful'',
      user = u,
      token = t,
      set_cookie = \<lparr>key = ''access_token'', cookie_value = access_token t, httponly = True,
                     max_age = expires_in t, samesite = ''lax'', secure = True\<rparr>\<rparr>"

text \<open>
  \<^verbatim>\<open>GET /auth/callback\<close>: the result or the exception, the session store after the call,
  and the requests sent to the provider.
\<close>

definition auth_callback ::
  "jose \<Rightarrow> pydantic \<Rightarrow> provider \<Rightarrow> Settings \<Rightarrow> int \<Rightarrow> string \<Rightarrow> string \<Rightarrow> sessions
     \<Rightarrow> (error + CallbackResponse) \<times> sessions \<times> request list" where
  "auth_callback J V P S now code st sessions =
     (if sessions st = None
      then (Inl (HTTPException 400 ''Invalid state parameter''), sessions, [])
      else
        (bind_err (fst (provider_exchange V P S code)) (\<lambda>user_data.
         bind_err (user_from_provider user_data) (\<lambda>u.
           Inr (callback_response u (create_jwt_token J S now u)))),
         sessions(st := None),
         snd (provider_exchange V P S code)))"

record StatusResponse =
  authenticated :: bool
  status_user :: "User option"

text \<open>\<^verbatim>\<open>GET /auth/status\<close>: \<^verbatim>\<open>except HTTPException\<close> catches that exception and no other.\<close>

definition auth_status :: "jose \<Rightarrow> Settings \<Rightarrow> int \<Rightarrow> Request \<Rightarrow> error + StatusResponse" where
  "auth_status J S now req =
     (case get_current_user J S now req of
        Inr u \<Rightarrow> Inr \<lparr>authenticated = True, status_user = Some u\<rparr>
      | Inl (HTTPException code detail) \<Rightarrow> Inr \<lparr>authenticated = False, status_user = None\<rparr>
      | Inl e \<Rightarrow> Inl e)"

section \<open>Runs of the endpoints and sample inputs\<close>

text \<open>
  Settings with the defaults of \<^verbatim>\<open>config.py\<close> for the token fields and the URLs of an
  example provider.
\<close>

definition demo_settings :: Settings where
  "demo_settings =
     \<lparr>oauth2_client_id = ''client'', oauth2_client_secret = ''secret'',
      oauth2_authorization_url = ''https://idp.example/authorize'',
      oauth2_token_url = ''https://idp.example/token'',
      oauth2_user_info_url = ''https://idp.example/userinfo'',
      oauth2_redirect_uri = ''http://localhost:8000/auth/callback'',
      jwt_secret_key = ''default-secret-key-change-in-production'',
      jwt_algorithm = ''HS256'', jwt_expiration_minutes = 30,
      app_host = ''0.0.0.0'', app_port = 8000\<rparr>"

text \<open>
  A token library that knows one token, \<open>''signed''\<close>, and decodes it to a given payload;
  and a provider that gives one answer to the token request and one to the user-info
  request.
\<close>

definition demo_jose :: "pydict \<Rightarrow> jose" where
  "demo_jose payload =
     \<lparr>jwt_encode = (\<lambda>claims k alg. ''signed''),
      jwt_decode = (\<lambda>tok k algs now.
        if tok = ''signed'' then Payload payload else JWTError ''Not enough segments'')\<rparr>"

text \<open>A token library given by the tokens it accepts and what it decodes them to.\<close>

definition table_jose :: "(string \<times> decoded) list \<Rightarrow> jose" where
  "table_jose table =
     \<lparr>jwt_encode = (\<lambda>claims k alg. ''signed''),
      jwt_decode = (\<lambda>tok k algs now.
        case map_of table tok of None \<Rightarrow> JWTError ''Not enough segments'' | Some r \<Rightarrow> r)\<rparr>"

definition two_token_jose :: jose where
  "two_token_jose =
     table_jose [(''good'', Payload [(''sub'', PStr ''u1'')]),
                 (''odd'', Payload [(''sub'', PStr ''u1''), (''email'', PInt 123)])]"

definition good_user :: User where
  "good_user =
     \<lparr>user_id = ''u1'', email = None, name = None, provider = ''unknown'', provider_data = []\<rparr>"

text \<open>A validator that takes integers, bools and strings of decimal digits.\<close>

fun digits_value :: "string \<Rightarrow> nat \<Rightarrow> nat option" where
  "digits_value [] acc = Some acc"
| "digits_value (c # cs) acc =
     (if 48 \<le> (of_char c :: nat) \<and> (of_char c :: nat) \<le> 57
      then digits_value cs (10 * acc + (of_char c - 48))
      else None)"

fun demo_lax_int :: "pyval \<Rightarrow> int option" where
  "demo_lax_int (PInt i) = Some i"
| "demo_lax_int (PBool b) = Some (if b then 1 else 0)"
| "demo_lax_int (PStr s) = (if s = [] then None else map_option int (digits_value s 0))"
| "demo_lax_int v = None"

definition demo_pydantic :: pydantic where
  "demo_pydantic = \<lparr>lax_int = demo_lax_int\<rparr>"

definition demo_provider :: "http_reply \<Rightarrow> http_reply \<Rightarrow> provider" where
  "demo_provider token_reply profile_reply =
     \<lparr>client_post = (\<lambda>url form. token_reply), client_get = (\<lambda>url headers. profile_reply)\<rparr>"

definition good_token_reply :: http_reply where
  "good_token_reply =
     Response 200 [] (Some (PDict [(''access_token'', PStr ''tok''), (''token_type'', PStr ''bearer'')]))"

definition numeric_string_token_reply :: http_reply where
  "numeric_string_token_reply =
     Response 200 []
       (Some (PDict [(''access_token'', PStr ''tok''), (''token_type'', PStr ''bearer''),
                     (''expires_in'', PStr ''3600'')]))"

definition good_profile_reply :: http_reply where
  "good_profile_reply =
     Response 200 [] (Some (PDict [(''id'', PStr ''u1''), (''email'', PStr ''a@b.com'')]))"

text \<open>
  Requests that change the store, in the order they are served: a login with the nonce
  it draws and its time, a callback with its code, state and time.
\<close>

datatype event =
    Login string int
  | Callback string string int

fun run ::
  "jose \<Rightarrow> pydantic \<Rightarrow> provider \<Rightarrow> Settings \<Rightarrow> event list \<Rightarrow> sessions \<Rightarrow> sessions" where
  "run J V P S [] s = s"
| "run J V P S (Login n t # es) s = run J V P S es (snd (login S n t s))"
| "run J V P S (Callback c n t # es) s = run J V P S es (fst (snd (auth_callback J V P S t c n s)))"

fun creates :: "string \<Rightarrow> event \<Rightarrow> bool" where
  "creates n (Login m t) = (m = n)"
| "creates n (Callback c m t) = False"

fun presents :: "string \<Rightarrow> event \<Rightarrow> bool" where
  "presents n (Login m t) = False"
| "presents n (Callback c m t) = (m = n)"

fun event_time :: "event \<Rightarrow> int" where
  "event_time (Login m t) = t"
| "event_time (Callback c m t) = t"

text \<open>
  A request that neither stores nor presents the nonce \<open>n\<close> and arrives no later than
  600 seconds after \<open>t0\<close>.
\<close>

definition leaves_pending :: "string \<Rightarrow> int \<Rightarrow> event \<Rightarrow> bool" where
  "leaves_pending n t0 e =
     (\<not> creates n e \<and> \<not> presents n e \<and> event_time e - t0 \<le> 600000000)"

text \<open>A call that ends in an \<^verbatim>\<open>httpx.HTTPError\<close>: a transport error or a status outside 2xx.\<close>

fun reply_fails :: "http_reply \<Rightarrow> bool" where
  "reply_fails (TransportError e) = True"
| "reply_fails (Response status e body) = (\<not> is_success status)"

text \<open>
  The token each transport of \<^verbatim>\<open>get_current_user\<close> hands to \<^verbatim>\<open>verify_jwt_token\<close>, if any, and
  what it means for a transport to yield no user: it carries no token, or verification
  returns \<^verbatim>\<open>None\<close>.
\<close>

definition header_token :: "Request \<Rightarrow> string option" where
  "header_token req =
     (case authorization req of
        None \<Rightarrow> None
      | Some h \<Rightarrow> if h \<noteq> [] \<and> startswith_bearer h then Some (remove_bearer h) else None)"

definition cookie_token :: "Request \<Rightarrow> string option" where
  "cookie_token req =
     (case cookie_access_token req of
        None \<Rightarrow> None
      | Some t \<Rightarrow> if t \<noteq> [] then Some t else None)"

definition rejected :: "jose \<Rightarrow> Settings \<Rightarrow> int \<Rightarrow> string option \<Rightarrow> bool" where
  "rejected J S now cred =
     (case cred of None \<Rightarrow> True | Some t \<Rightarrow> verify_jwt_token J S now t = Inr None)"




subsection \<open>A token library to run the model with\<close>

text \<open>
  An unsigned stand-in for \<^verbatim>\<open>jose.jwt\<close>, to show that the contract below can be met: the
  token spells out the key, the algorithm and the five claims, each string behind its
  length in unary, the expiry in binary. Decoding reads them back, compares key and
  algorithm and rejects a token whose expiry second has passed.
\<close>

fun bits :: "nat \<Rightarrow> string" where
  "bits n = (if n = 0 then [] else (if even n then CHR ''0'' else CHR ''1'') # bits (n div 2))"

fun unbits :: "string \<Rightarrow> nat" where
  "unbits [] = 0"
| "unbits (c # cs) = (if c = CHR ''1'' then 1 else 0) + 2 * unbits cs"

definition enc_str :: "string \<Rightarrow> string" where
  "enc_str s = replicate (length s) CHR ''a'' @ CHR ''b'' # s"

definition dec_str :: "string \<Rightarrow> string \<times> string" where
  "dec_str xs =
     (let n = length (takeWhile (\<lambda>c. c = CHR ''a'') xs); r = drop (Suc n) xs
      in (take n r, drop n r))"

definition enc_int :: "int \<Rightarrow> string" where
  "enc_int i = (if i < 0 then CHR ''m'' else CHR ''p'') # enc_str (bits (nat \<bar>i\<bar>))"

fun dec_int :: "string \<Rightarrow> int \<times> string" where
  "dec_int [] = (0, [])"
| "dec_int (c # xs) =
     (let (b, r) = dec_str xs
      in (if c = CHR ''m'' then - int (unbits b) else int (unbits b), r))"

fun enc_val :: "pyval \<Rightarrow> string" where
  "enc_val (PStr s) = CHR ''S'' # enc_str s"
| "enc_val (PDatetime t) = CHR ''D'' # enc_int t"
| "enc_val v = ''N''"

fun dec_val :: "string \<Rightarrow> pyval \<times> string" where
  "dec_val [] = (PNone, [])"
| "dec_val (c # xs) =
     (if c = CHR ''S'' then (let (s, r) = dec_str xs in (PStr s, r))
      else if c = CHR ''D'' then (let (i, r) = dec_int xs in (PDatetime i, r))
      else (PNone, xs))"

text \<open>A \<^verbatim>\<open>datetime\<close> claim is encoded as whole seconds since the epoch.\<close>

definition numeric_date :: "pyval \<Rightarrow> pyval" where
  "numeric_date v = (case v of PDatetime t \<Rightarrow> PInt (t div 1000000) | _ \<Rightarrow> v)"

definition sample_encode :: "pydict \<Rightarrow> string \<Rightarrow> string \<Rightarrow> string" where
  "sample_encode claims k alg =
     enc_str k @ enc_str alg @
     enc_val (dict_get claims ''sub'' PNone) @ enc_val (dict_get claims ''email'' PNone) @
     enc_val (dict_get claims ''name'' PNone) @ enc_val (dict_get claims ''provider'' PNone) @
     enc_val (dict_get claims ''exp'' PNone)"

definition sample_decode :: "string \<Rightarrow> string \<Rightarrow> string list \<Rightarrow> int \<Rightarrow> decoded" where
  "sample_decode tok k algs now =
     (let (k', r1) = dec_str tok; (alg, r2) = dec_str r1;
          (v1, r3) = dec_val r2; (v2, r4) = dec_val r3; (v3, r5) = dec_val r4;
          (v4, r6) = dec_val r5; (v5, r7) = dec_val r6
      in if k' \<noteq> k \<or> alg \<notin> set algs \<or> r7 \<noteq> [] then JWTError ''Signature verification failed.''
         else if (case v5 of PDatetime e \<Rightarrow> e div 1000000 < now div 1000000 | _ \<Rightarrow> False)
         then JWTError ''Signature has expired.''
         else Payload [(''sub'', v1), (''email'', v2), (''name'', v3), (''provider'', v4),
                   (''exp'', numeric_date v5)])"

definition sample_jose :: jose where
  "sample_jose = \<lparr>jwt_encode = sample_encode, jwt_decode = sample_decode\<rparr>"

text \<open>
  What the model asks of the token library for the key and algorithm in use: on every
  claim set that \<^verbatim>\<open>create_jwt_token\<close> builds, decoding the encoded token strictly before
  its \<^verbatim>\<open>exp\<close> succeeds and returns the claims, \<^verbatim>\<open>exp\<close> as a number.
\<close>

definition jose_roundtrip :: "jose \<Rightarrow> string \<Rightarrow> string \<Rightarrow> bool" where
  "jose_roundtrip J k alg =
     (\<forall>S now u t. t < now + jwt_expiration_minutes S * 60000000 \<longrightarrow>
        (\<exists>payload. jwt_decode J (jwt_encode J (to_encode S now u) k alg) k [alg] t = Payload payload \<and>
           map_of payload = map_of (map (\<lambda>(c, v). (c, numeric_date v)) (to_encode S now u))))"

declare bits.simps [simp del]

section \<open>Properties\<close>

lemma auth_callback_sessions:
  "fst (snd (auth_callback J V P S now code st s)) = s(st := None)"
  by (auto simp: auth_callback_def)

lemma login_sessions:
  "snd (login S n t s) = (cleanup_expired_sessions t s)(n \<mapsto> (''pending'', t))"
  by (simp add: login_def)

lemma cleanup_absent: "s n = None \<Longrightarrow> cleanup_expired_sessions t s n = None"
  by (simp add: cleanup_expired_sessions_def)

lemma cleanup_fresh:
  "s n = Some (st, t0) \<Longrightarrow> t - t0 \<le> 600000000 \<Longrightarrow> cleanup_expired_sessions t s n = Some (st, t0)"
  by (simp add: cleanup_expired_sessions_def)

lemma run_keeps_absent:
  "list_all (\<lambda>e. \<not> creates n e) es \<Longrightarrow> s n = None \<Longrightarrow> run J V P S es s n = None"
proof (induction es arbitrary: s)
  case Nil
  then show ?case by simp
next
  case (Cons e es)
  show ?case
  proof (cases e)
    case (Login m t)
    with Cons.prems have "m \<noteq> n" by simp
    with Cons.prems have "snd (login S m t s) n = None"
      by (simp add: login_sessions cleanup_absent)
    with Cons Login show ?thesis by simp
  next
    case (Callback c m t)
    from Cons.prems have "fst (snd (auth_callback J V P S t c m s)) n = None"
      by (simp add: auth_callback_sessions)
    with Cons Callback show ?thesis by simp
  qed
qed

lemma run_keeps_pending:
  "list_all (leaves_pending n t0) es \<Longrightarrow> s n = Some (st, t0) \<Longrightarrow> run J V P S es s n = Some (st, t0)"
proof (induction es arbitrary: s)
  case Nil
  then show ?case by simp
next
  case (Cons e es)
  show ?case
  proof (cases e)
    case (Login m t)
    with Cons.prems have "m \<noteq> n" "t - t0 \<le> 600000000"
      by (simp_all add: leaves_pending_def)
    with Cons.prems have "snd (login S m t s) n = Some (st, t0)"
      by (simp add: login_sessions cleanup_fresh)
    with Cons Login show ?thesis by simp
  next
    case (Callback c m t)
    with Cons.prems have "m \<noteq> n" by (simp add: leaves_pending_def)
    with Cons.prems have "fst (snd (auth_callback J V P S t c m s)) n = Some (st, t0)"
      by (simp add: auth_callback_sessions)
    with Cons Callback show ?thesis by simp
  qed
qed

lemma checked_json_not_400: "checked_json r \<noteq> Inl (HTTPException 400 d)"
  by (cases r) (auto split: option.splits)

lemma bind_err_Inl:
  "bind_err r f = Inl x \<longleftrightarrow> r = Inl x \<or> (\<exists>v. r = Inr v \<and> f v = Inl x)"
  by (cases r) (simp_all add: bind_err_def)

lemma bind_err_Inr:
  "bind_err r f = Inr y \<longleftrightarrow> (\<exists>v. r = Inr v \<and> f v = Inr y)"
  by (cases r) (simp_all add: bind_err_def)

lemma validate_str_Inl: "validate_str v = Inl x \<Longrightarrow> x = ValidationError"
  by (cases v) auto

lemma validate_opt_str_Inl: "validate_opt_str v = Inl x \<Longrightarrow> x = ValidationError"
  by (cases v) auto

lemma validate_opt_int_Inl: "validate_opt_int V v = Inl x \<Longrightarrow> x = ValidationError"
  by (auto simp: validate_opt_int_def split: if_splits option.splits)

lemma validate_dict_Inl: "validate_dict v = Inl x \<Longrightarrow> x = ValidationError"
  by (cases v) auto

lemma required_Inl: "required d k = Inl x \<Longrightarrow> x = ValidationError"
  by (auto split: option.splits)

lemma new_User_Inl: "new_User i e n p d = Inl x \<Longrightarrow> x = ValidationError"
  by (auto simp: new_User_def bind_err_Inl
      dest: validate_str_Inl validate_opt_str_Inl validate_dict_Inl)

lemma user_from_provider_Inl:
  "user_from_provider v = Inl x \<Longrightarrow> x = ValidationError \<or> x = AttributeError"
  by (cases v) (auto dest: new_User_Inl)

lemma new_OAuth2Token_Inl:
  "new_OAuth2Token V v = Inl x \<Longrightarrow> x = ValidationError \<or> x = TypeError"
  by (cases v)
    (auto simp: bind_err_Inl simp del: required.simps
      dest: validate_str_Inl validate_opt_str_Inl validate_opt_int_Inl required_Inl)

lemma user_from_provider_not_http: "user_from_provider v \<noteq> Inl (HTTPException c x)"
  using user_from_provider_Inl by blast

lemma new_OAuth2Token_not_http: "new_OAuth2Token V v \<noteq> Inl (HTTPException c x)"
  using new_OAuth2Token_Inl by blast

lemma provider_exchange_not_400: "fst (provider_exchange V P S code) \<noteq> Inl (HTTPException 400 d)"
  by (auto simp: provider_exchange_def Let_def checked_json_not_400 new_OAuth2Token_not_http
      split: sum.splits)

lemma provider_exchange_calls: "snd (provider_exchange V P S code) \<noteq> []"
  by (auto simp: provider_exchange_def Let_def split: sum.splits)

lemma auth_callback_known_state:
  assumes "sessions st \<noteq> None"
  shows "fst (auth_callback J V P S now code st sessions) \<noteq> Inl (HTTPException 400 d)"
    and "snd (snd (auth_callback J V P S now code st sessions)) \<noteq> []"
  using assms provider_exchange_not_400 [of V P S code d] provider_exchange_calls [of V P S code]
    user_from_provider_not_http
  by (auto simp: auth_callback_def bind_err_def split: sum.splits)

lemma auth_callback_absent:
  "sessions st = None \<Longrightarrow>
   auth_callback J V P S now code st sessions =
     (Inl (HTTPException 400 ''Invalid state parameter''), sessions, [])"
  by (simp add: auth_callback_def)

subsection \<open>The callback and the session store\<close>

text \<open>
  Claim C6. A callback whose \<^verbatim>\<open>state\<close> is not a key of the session store raises the
  \<^verbatim>\<open>HTTPException\<close> with status 400, sends no request to the provider and leaves the
  store as it was, whatever the code, the provider and the token library are.
\<close>

theorem unknown_state_rejected:
  assumes "sessions st = None"
  shows "auth_callback J V P S now code st sessions =
           (Inl (HTTPException 400 ''Invalid state parameter''), sessions, [])"
  using assms by (simp add: auth_callback_def)

theorem unknown_state_rejected_witness:
  "[''abc123'' \<mapsto> (''pending'', 0::int)] ''unknown'' = None \<and>
   auth_callback (demo_jose []) demo_pydantic (demo_provider good_token_reply good_profile_reply) demo_settings
       1000000 ''goodcode'' ''unknown'' [''abc123'' \<mapsto> (''pending'', 0)] =
     (Inl (HTTPException 400 ''Invalid state parameter''), [''abc123'' \<mapsto> (''pending'', 0)], [])"
  using unknown_state_rejected [of "[''abc123'' \<mapsto> (''pending'', 0)]" "''unknown''"
      "demo_jose []" demo_pydantic "demo_provider good_token_reply good_profile_reply"
      demo_settings 1000000 "''goodcode''"]
  by simp

lemma checked_json_fails:
  "reply_fails r \<Longrightarrow>
   \<exists>e. checked_json r = Inl (HTTPException 500 (''Failed to authenticate with provider: '' @ e))"
  by (cases r) auto

text \<open>
  Claim C7. The state is in the store and the exchange fails: the token request raises
  a transport error or is answered outside 2xx, or it succeeds with a provider token
  that passes validation (whatever the validator of \<^verbatim>\<open>expires_in\<close> takes) and can be sent
  in a header, and the user-info request fails in one of these two ways. Then the
  callback raises the \<^verbatim>\<open>HTTPException\<close> with status 500, so it returns no token and sets
  no cookie; the token library plays no part in the outcome; and the store after the
  call is the store without the state: the nonce stays consumed.
\<close>

theorem exchange_failure_consumes_nonce:
  assumes known: "sessions st \<noteq> None"
    and fails:
      "reply_fails (client_post P (oauth2_token_url S) (token_form S code)) \<or>
       (\<exists>token_data oauth_token.
          checked_json (client_post P (oauth2_token_url S) (token_form S code)) = Inr token_data \<and>
          new_OAuth2Token V token_data = Inr oauth_token \<and>
          is_ascii (oauth_access_token oauth_token) \<and>
          reply_fails (client_get P (oauth2_user_info_url S) (bearer_header oauth_token)))"
  shows "\<exists>e calls.
           auth_callback J V P S now code st sessions =
             (Inl (HTTPException 500 (''Failed to authenticate with provider: '' @ e)),
              sessions(st := None), calls) \<and>
           calls \<noteq> [] \<and>
           (sessions(st := None)) st = None \<and>
           auth_callback J' V P S now code st sessions = auth_callback J V P S now code st sessions"
proof -
  from fails obtain e where
    "fst (provider_exchange V P S code) =
       Inl (HTTPException 500 (''Failed to authenticate with provider: '' @ e))"
  proof
    assume "reply_fails (client_post P (oauth2_token_url S) (token_form S code))"
    from checked_json_fails [OF this] that show ?thesis
      by (auto simp: provider_exchange_def)
  next
    assume "\<exists>token_data oauth_token.
          checked_json (client_post P (oauth2_token_url S) (token_form S code)) = Inr token_data \<and>
          new_OAuth2Token V token_data = Inr oauth_token \<and>
          is_ascii (oauth_access_token oauth_token) \<and>
          reply_fails (client_get P (oauth2_user_info_url S) (bearer_header oauth_token))"
    then obtain token_data oauth_token where
      a: "checked_json (client_post P (oauth2_token_url S) (token_form S code)) = Inr token_data"
      and b: "new_OAuth2Token V token_data = Inr oauth_token"
      and b': "is_ascii (oauth_access_token oauth_token)"
      and c: "reply_fails (client_get P (oauth2_user_info_url S) (bearer_header oauth_token))"
      by blast
    from checked_json_fails [OF c] a b b' that show ?thesis
      by (auto simp: provider_exchange_def)
  qed
  with known provider_exchange_calls [of V P S code] show ?thesis
    by (simp add: auth_callback_def bind_err_def)
qed

theorem exchange_failure_consumes_nonce_witness:
  "(\<exists>e calls.
      auth_callback (demo_jose []) demo_pydantic
          (demo_provider (TransportError ''connection refused'') good_profile_reply) demo_settings
          1000000 ''goodcode'' ''abc123'' [''abc123'' \<mapsto> (''pending'', 0)] =
        (Inl (HTTPException 500 (''Failed to authenticate with provider: '' @ e)),
         [''abc123'' \<mapsto> (''pending'', 0)](''abc123'' := None), calls) \<and> calls \<noteq> []) \<and>
   (\<exists>e calls.
      auth_callback (demo_jose []) demo_pydantic
          (demo_provider numeric_string_token_reply (Response 503 ''Server error'' None))
          demo_settings 1000000 ''goodcode'' ''abc123'' [''abc123'' \<mapsto> (''pending'', 0)] =
        (Inl (HTTPException 500 (''Failed to authenticate with provider: '' @ e)),
         [''abc123'' \<mapsto> (''pending'', 0)](''abc123'' := None), calls) \<and> calls \<noteq> [])"
proof -
  let ?s = "[''abc123'' \<mapsto> (''pending'', 0::int)]"
  have k: "?s ''abc123'' \<noteq> None" by simp
  let ?P1 = "demo_provider (TransportError ''connection refused'') good_profile_reply"
  let ?P2 = "demo_provider numeric_string_token_reply (Response 503 ''Server error'' None)"
  have f1: "reply_fails (client_post ?P1 (oauth2_token_url demo_settings)
              (token_form demo_settings ''goodcode''))"
    by (simp add: demo_provider_def)
  have t: "new_OAuth2Token demo_pydantic
             (PDict [(''access_token'', PStr ''tok''), (''token_type'', PStr ''bearer''),
                     (''expires_in'', PStr ''3600'')]) =
           Inr \<lparr>oauth_access_token = ''tok'', oauth_token_type = ''bearer'',
                oauth_expires_in = Some 3600, oauth_refresh_token = None, oauth_scope = None\<rparr>"
    by (simp add: bind_err_def dict_get_def validate_opt_int_def demo_pydantic_def)
  have f2: "\<exists>token_data oauth_token.
          checked_json (client_post ?P2 (oauth2_token_url demo_settings)
            (token_form demo_settings ''goodcode'')) = Inr token_data \<and>
          new_OAuth2Token demo_pydantic token_data = Inr oauth_token \<and>
          is_ascii (oauth_access_token oauth_token) \<and>
          reply_fails (client_get ?P2 (oauth2_user_info_url demo_settings) (bearer_header oauth_token))"
    by (simp add: demo_provider_def numeric_string_token_reply_def is_success_def t is_ascii_def
        del: new_OAuth2Token.simps)
  from k f1 f2
    exchange_failure_consumes_nonce [where sessions = ?s and st = "''abc123''" and P = ?P1
      and S = demo_settings and code = "''goodcode''" and J = "demo_jose []" and now = 1000000
      and V = demo_pydantic]
    exchange_failure_consumes_nonce [where sessions = ?s and st = "''abc123''" and P = ?P2
      and S = demo_settings and code = "''goodcode''" and J = "demo_jose []" and now = 1000000
      and V = demo_pydantic]
  show ?thesis by blast
qed

text \<open>
  Claim C1. \<^verbatim>\<open>auth_callback\<close> looks the state up and never reads its timestamp: only
  \<^verbatim>\<open>login\<close> sweeps the store. A state that was created at time 0 and is presented 601
  seconds later, no login having run in between, passes the check; with a provider
  that answers, the callback returns a user and a token.
\<close>

theorem expired_state_accepted:
  "(601000000::int) - 0 > 600000000 \<and>
   auth_callback (demo_jose []) demo_pydantic (demo_provider good_token_reply good_profile_reply) demo_settings
       601000000 ''goodcode'' ''abc123'' [''abc123'' \<mapsto> (''pending'', 0)] =
     (Inr (callback_response
        \<lparr>user_id = ''u1'', email = Some ''a@b.com'', name = None, provider = ''oauth2'',
         provider_data = [(''id'', PStr ''u1''), (''email'', PStr ''a@b.com'')]\<rparr>
        \<lparr>access_token = ''signed'', token_type = ''bearer'', expires_in = Some 1800\<rparr>),
      [''abc123'' \<mapsto> (''pending'', 0)](''abc123'' := None),
      [POST ''https://idp.example/token''
         [(''grant_type'', ''authorization_code''), (''code'', ''goodcode''),
          (''redirect_uri'', ''http://localhost:8000/auth/callback''),
          (''client_id'', ''client''), (''client_secret'', ''secret'')],
       GET ''https://idp.example/userinfo'' [(''Authorization'', ''Bearer tok'')]])"
  by (simp add: auth_callback_def provider_exchange_def demo_provider_def good_token_reply_def
      good_profile_reply_def is_success_def bind_err_def dict_get_def py_or_def new_User_def
      create_jwt_token_def demo_jose_def demo_settings_def bearer_header_def token_form_def
      validate_opt_int_def is_ascii_def)

text \<open>
  Claim C2. A login stores the nonce \<open>n\<close> at time \<open>t0\<close>. Let any requests follow that
  neither create nor present \<open>n\<close> and that arrive within the ten minutes, then the
  first callback that presents \<open>n\<close>: the nonce is still pending, the callback passes
  the state check and reaches the provider, and the nonce is gone from the store.
  After any further requests that do not create \<open>n\<close> again, a callback presenting \<open>n\<close>
  is rejected with status 400, without a request to the provider.
\<close>

theorem nonce_single_use:
  assumes before: "list_all (leaves_pending n t0) es1"
    and after: "list_all (\<lambda>e. \<not> creates n e) es2"
  shows "let s1 = run J V P S es1 (snd (login S n t0 s0));
             r = auth_callback J V P S t1 code n s1;
             s2 = fst (snd r);
             s3 = run J V P S es2 s2
         in s1 n = Some (''pending'', t0) \<and>
            fst r \<noteq> Inl (HTTPException 400 ''Invalid state parameter'') \<and>
            snd (snd r) \<noteq> [] \<and>
            s2 n = None \<and>
            auth_callback J' V' P' S' t2 code' n s3 =
              (Inl (HTTPException 400 ''Invalid state parameter''), s3, [])"
proof -
  define s1 where "s1 = run J V P S es1 (snd (login S n t0 s0))"
  define r where "r = auth_callback J V P S t1 code n s1"
  define s2 where "s2 = fst (snd r)"
  define s3 where "s3 = run J V P S es2 s2"
  have "snd (login S n t0 s0) n = Some (''pending'', t0)"
    by (simp add: login_sessions)
  with before have p: "s1 n = Some (''pending'', t0)"
    unfolding s1_def by (rule run_keeps_pending)
  then have k: "s1 n \<noteq> None" by simp
  have a: "fst r \<noteq> Inl (HTTPException 400 ''Invalid state parameter'')"
    and b: "snd (snd r) \<noteq> []"
    unfolding r_def using k auth_callback_known_state [where sessions = s1 and st = n] by blast+
  have c: "s2 n = None"
    unfolding s2_def r_def by (simp add: auth_callback_sessions)
  with after have "s3 n = None"
    unfolding s3_def by (rule run_keeps_absent)
  then have d: "auth_callback J' V' P' S' t2 code' n s3 =
      (Inl (HTTPException 400 ''Invalid state parameter''), s3, [])"
    by (rule auth_callback_absent)
  from p a b c d show ?thesis
    unfolding Let_def s1_def [symmetric] r_def [symmetric] s2_def [symmetric] s3_def [symmetric]
    by blast
qed

theorem nonce_single_use_witness:
  "list_all (leaves_pending ''abc123'' 0)
     [Login ''other'' 5000000, Callback ''c1'' ''zzz'' 6000000] \<and>
   list_all (\<lambda>e. \<not> creates ''abc123'' e)
     [Callback ''c2'' ''abc123'' 8000000, Login ''later'' 900000000] \<and>
   (let s1 = run (demo_jose []) demo_pydantic (demo_provider good_token_reply good_profile_reply) demo_settings
               [Login ''other'' 5000000, Callback ''c1'' ''zzz'' 6000000]
               (snd (login demo_settings ''abc123'' 0 Map.empty));
        r = auth_callback (demo_jose []) demo_pydantic (demo_provider good_token_reply good_profile_reply)
              demo_settings 7000000 ''goodcode'' ''abc123'' s1;
        s2 = fst (snd r);
        s3 = run (demo_jose []) demo_pydantic (demo_provider good_token_reply good_profile_reply) demo_settings
               [Callback ''c2'' ''abc123'' 8000000, Login ''later'' 900000000] s2
    in s1 ''abc123'' = Some (''pending'', 0) \<and>
       fst r \<noteq> Inl (HTTPException 400 ''Invalid state parameter'') \<and>
       snd (snd r) \<noteq> [] \<and>
       s2 ''abc123'' = None \<and>
       auth_callback (demo_jose []) demo_pydantic (demo_provider good_token_reply good_profile_reply)
           demo_settings 9000000 ''goodcode'' ''abc123'' s3 =
         (Inl (HTTPException 400 ''Invalid state parameter''), s3, []))"
proof -
  have h1: "list_all (leaves_pending ''abc123'' 0)
     [Login ''other'' 5000000, Callback ''c1'' ''zzz'' 6000000]"
    by (simp add: leaves_pending_def)
  have h2: "list_all (\<lambda>e. \<not> creates ''abc123'' e)
     [Callback ''c2'' ''abc123'' 8000000, Login ''later'' 900000000]"
    by simp
  from h1 h2 nonce_single_use [OF h1 h2] show ?thesis by blast
qed

subsection \<open>Authenticating a request\<close>

lemma check_cookie_eq:
  "check_cookie J S now req =
     (case cookie_token req of
        None \<Rightarrow> Inl (HTTPException 401 ''Not authenticated'')
      | Some t \<Rightarrow> bind_err (verify_jwt_token J S now t) (\<lambda>r.
          case r of Some u \<Rightarrow> Inr u | None \<Rightarrow> Inl (HTTPException 401 ''Not authenticated'')))"
  by (simp add: check_cookie_def cookie_token_def split: option.splits)

lemma get_current_user_eq:
  "get_current_user J S now req =
     (case header_token req of
        None \<Rightarrow> check_cookie J S now req
      | Some t \<Rightarrow> bind_err (verify_jwt_token J S now t) (\<lambda>r.
          case r of Some u \<Rightarrow> Inr u | None \<Rightarrow> check_cookie J S now req))"
  by (simp add: get_current_user_def header_token_def split: option.splits)

lemma verify_not_http: "verify_jwt_token J S now t \<noteq> Inl (HTTPException c d)"
  by (auto simp: verify_jwt_token_def Let_def bind_err_Inl split: decoded.splits if_splits
      dest: new_User_Inl)

lemma check_cookie_401:
  "check_cookie J S now req = Inl (HTTPException 401 ''Not authenticated'') \<longleftrightarrow>
   rejected J S now (cookie_token req)"
  using verify_not_http [of J S now]
  by (auto simp: check_cookie_eq rejected_def bind_err_def split: option.splits sum.splits)

lemma get_current_user_header_rejected:
  "rejected J S now (header_token req) \<Longrightarrow>
   get_current_user J S now req = check_cookie J S now req"
  by (auto simp: get_current_user_eq rejected_def bind_err_def split: option.splits)

lemma get_current_user_401:
  "get_current_user J S now req = Inl (HTTPException 401 ''Not authenticated'') \<longleftrightarrow>
   rejected J S now (header_token req) \<and> rejected J S now (cookie_token req)"
proof (cases "rejected J S now (header_token req)")
  case True
  then show ?thesis
    by (simp add: get_current_user_header_rejected check_cookie_401)
next
  case False
  then obtain t where t: "header_token req = Some t" "verify_jwt_token J S now t \<noteq> Inr None"
    by (auto simp: rejected_def split: option.splits)
  with verify_not_http [of J S now t]
  have "get_current_user J S now req \<noteq> Inl (HTTPException 401 ''Not authenticated'')"
    by (auto simp: get_current_user_eq bind_err_def split: sum.splits option.splits)
  with False show ?thesis by simp
qed

text \<open>
  The order of the two transports, for tokens whose verification returns: a Bearer token
  that verifies gives the user, whatever the cookie holds; a header that yields no user
  (none, not a Bearer header, or a token for which verification returns \<^verbatim>\<open>None\<close>) leaves
  the result to the cookie; the 401 is raised exactly when neither transport yields a
  user.
\<close>

lemma header_before_cookie:
  "(header_token req = Some t \<and> verify_jwt_token J S now t = Inr (Some u) \<longrightarrow>
      get_current_user J S now req = Inr u) \<and>
   (rejected J S now (header_token req) \<longrightarrow>
      get_current_user J S now req = check_cookie J S now req \<and>
      (cookie_token req = Some t' \<and> verify_jwt_token J S now t' = Inr (Some u') \<longrightarrow>
         get_current_user J S now req = Inr u')) \<and>
   (get_current_user J S now req = Inl (HTTPException 401 ''Not authenticated'') \<longleftrightarrow>
      rejected J S now (header_token req) \<and> rejected J S now (cookie_token req))"
proof (intro conjI impI)
  assume "header_token req = Some t \<and> verify_jwt_token J S now t = Inr (Some u)"
  then show "get_current_user J S now req = Inr u"
    by (simp add: get_current_user_eq bind_err_def)
next
  assume r: "rejected J S now (header_token req)"
  then show c: "get_current_user J S now req = check_cookie J S now req"
    by (rule get_current_user_header_rejected)
  assume "cookie_token req = Some t' \<and> verify_jwt_token J S now t' = Inr (Some u')"
  with c show "get_current_user J S now req = Inr u'"
    by (simp add: check_cookie_eq bind_err_def)
next
  show "get_current_user J S now req = Inl (HTTPException 401 ''Not authenticated'') \<longleftrightarrow>
      rejected J S now (header_token req) \<and> rejected J S now (cookie_token req)"
    by (rule get_current_user_401)
qed

text \<open>
  Claim C10. The library accepts two tokens: \<open>''good''\<close>, with a string under \<^verbatim>\<open>sub\<close>, and
  \<open>''odd''\<close>, whose payload holds a number under \<^verbatim>\<open>email\<close>. A Bearer header with \<open>''good''\<close>
  is accepted without a cookie, the cookie \<open>''good''\<close> is accepted without a header, and
  a header that the library refuses falls through to that cookie. A header with \<open>''odd''\<close>
  does not: verifying it raises the validation error of the \<^verbatim>\<open>User\<close> constructor, which
  ends \<^verbatim>\<open>get_current_user\<close> before the cookie is read, although the cookie would
  authenticate the request.
\<close>

theorem raising_header_skips_cookie:
  "get_current_user two_token_jose demo_settings 0
     \<lparr>authorization = Some ''Bearer good'', cookie_access_token = None\<rparr> = Inr good_user \<and>
   get_current_user two_token_jose demo_settings 0
     \<lparr>authorization = None, cookie_access_token = Some ''good''\<rparr> = Inr good_user \<and>
   get_current_user two_token_jose demo_settings 0
     \<lparr>authorization = Some ''Bearer forged'', cookie_access_token = Some ''good''\<rparr> =
     Inr good_user \<and>
   get_current_user two_token_jose demo_settings 0
     \<lparr>authorization = Some ''Bearer odd'', cookie_access_token = Some ''good''\<rparr> =
     Inl ValidationError"
  by (simp add: get_current_user_def check_cookie_def startswith_bearer_def verify_jwt_token_def
      two_token_jose_def table_jose_def good_user_def dict_get_def new_User_def bind_err_def)

subsection \<open>The status endpoint\<close>

text \<open>
  Claim C8. \<^verbatim>\<open>auth_status\<close> catches \<^verbatim>\<open>HTTPException\<close> only, and \<^verbatim>\<open>verify_jwt_token\<close> catches
  \<^verbatim>\<open>JWTError\<close> only. A token that the library accepts and whose payload holds a number
  under \<^verbatim>\<open>email\<close> makes the \<^verbatim>\<open>User\<close> constructor raise a validation error, which leaves
  \<^verbatim>\<open>auth_status\<close> as an exception instead of an answer.
\<close>

theorem status_raises_on_ill_typed_claim:
  "auth_status (demo_jose [(''sub'', PStr ''u1''), (''email'', PInt 123)]) demo_settings 0
     \<lparr>authorization = Some ''Bearer signed'', cookie_access_token = None\<rparr> = Inl ValidationError"
  by (simp add: auth_status_def get_current_user_def startswith_bearer_def verify_jwt_token_def
      demo_jose_def dict_get_def new_User_def bind_err_def)

text \<open>
  The validation error and the exceptions that the library raises besides \<^verbatim>\<open>JWTError\<close>
  are the only exceptions of \<^verbatim>\<open>auth_status\<close>, and a request whose transports yield no user
  is answered \<^verbatim>\<open>authenticated: False\<close>.
\<close>

lemma verify_Inl:
  "verify_jwt_token J S now t = Inl e \<Longrightarrow> e = ValidationError \<or> (\<exists>c. e = LibraryError c)"
  by (auto simp: verify_jwt_token_def Let_def bind_err_Inl split: decoded.splits if_splits
      dest: new_User_Inl)

lemma check_cookie_Inl:
  "check_cookie J S now req = Inl e \<Longrightarrow>
   e = ValidationError \<or> (\<exists>c. e = LibraryError c) \<or>
   e = HTTPException 401 ''Not authenticated''"
  by (auto simp: check_cookie_eq bind_err_Inl split: option.splits dest: verify_Inl)

lemma get_current_user_Inl:
  "get_current_user J S now req = Inl e \<Longrightarrow>
   e = ValidationError \<or> (\<exists>c. e = LibraryError c) \<or>
   e = HTTPException 401 ''Not authenticated''"
  by (auto simp: get_current_user_eq bind_err_Inl split: option.splits
      dest: verify_Inl check_cookie_Inl)

lemma auth_status_Inl:
  "auth_status J S now req = Inl e \<Longrightarrow> e = ValidationError \<or> (\<exists>c. e = LibraryError c)"
  by (auto simp: auth_status_def split: sum.splits error.splits dest: get_current_user_Inl)

lemma status_raises_on_library_exception:
  "auth_status (table_jose [(''signed'', Raises ''TypeError'')]) demo_settings 0
     \<lparr>authorization = Some ''Bearer signed'', cookie_access_token = None\<rparr> =
   Inl (LibraryError ''TypeError'')"
  by (simp add: auth_status_def get_current_user_def startswith_bearer_def verify_jwt_token_def
      table_jose_def bind_err_def)

lemma auth_status_unauthenticated:
  "rejected J S now (header_token req) \<Longrightarrow> rejected J S now (cookie_token req) \<Longrightarrow>
   auth_status J S now req = Inr \<lparr>authenticated = False, status_user = None\<rparr>"
  using get_current_user_401 [of J S now req]
  by (simp add: auth_status_def)

subsection \<open>The subject of the issued token\<close>






subsection \<open>Issuing and verifying a token\<close>

lemma unbits_bits: "unbits (bits n) = n"
proof (induction n rule: bits.induct)
  case (1 n)
  show ?case
  proof (cases "n = 0")
    case True
    then show ?thesis by (simp add: bits.simps)
  next
    case False
    with 1 have "unbits (bits (n div 2)) = n div 2" by simp
    with False show ?thesis
      by (subst bits.simps) (auto elim: evenE oddE)
  qed
qed

lemma takeWhile_replicate_stop:
  "x \<noteq> y \<Longrightarrow> takeWhile (\<lambda>c. c = x) (replicate n x @ y # ys) = replicate n x"
  by (induction n) auto

lemma dec_enc_str: "dec_str (enc_str s @ rest) = (s, rest)"
  by (simp add: dec_str_def enc_str_def takeWhile_replicate_stop)

lemma dec_enc_int: "dec_int (enc_int i @ rest) = (i, rest)"
  by (simp add: enc_int_def dec_enc_str unbits_bits)

lemma dec_enc_val_str: "dec_val (enc_val (PStr s) @ rest) = (PStr s, rest)"
  by (simp add: dec_enc_str)

lemma dec_enc_val_none: "dec_val (enc_val PNone @ rest) = (PNone, rest)"
  by simp

lemma dec_enc_val_date: "dec_val (enc_val (PDatetime t) @ rest) = (PDatetime t, rest)"
  by (simp add: dec_enc_int)

lemma dec_enc_val_date_end: "dec_val (enc_val (PDatetime t)) = (PDatetime t, [])"
  using dec_enc_val_date [of t "[]"] by simp

lemma sample_roundtrip: "jose_roundtrip sample_jose k alg"
  unfolding jose_roundtrip_def
proof (intro allI impI)
  fix S :: Settings and now :: int and u :: User and t :: int
  assume "t < now + jwt_expiration_minutes S * 60000000"
  then have le: "\<not> (now + jwt_expiration_minutes S * 60000000) div 1000000 < t div 1000000"
    by (simp add: not_less zdiv_mono1)
  have opt: "\<And>x rest. dec_val (enc_val (case x of None \<Rightarrow> PNone | Some e \<Rightarrow> PStr e) @ rest)
       = ((case x of None \<Rightarrow> PNone | Some e \<Rightarrow> PStr e), rest)"
    by (simp add: dec_enc_str split: option.splits)
  have "sample_decode (sample_encode (to_encode S now u) k alg) k [alg] t =
      Payload (map (\<lambda>(c, v). (c, numeric_date v)) (to_encode S now u))"
    using le
    by (simp add: sample_decode_def sample_encode_def to_encode_def dict_get_def dec_enc_str
        dec_enc_val_str dec_enc_val_date_end opt numeric_date_def
        del: enc_val.simps dec_val.simps)
      (simp split: option.splits)
  then show "\<exists>payload.
      jwt_decode sample_jose (jwt_encode sample_jose (to_encode S now u) k alg) k [alg] t = Payload payload \<and>
      map_of payload = map_of (map (\<lambda>(c, v). (c, numeric_date v)) (to_encode S now u))"
    by (simp add: sample_jose_def)
qed

text \<open>
  \<^verbatim>\<open>verify_jwt_token\<close> returns \<^verbatim>\<open>None\<close> exactly when the library raises \<^verbatim>\<open>JWTError\<close> or the
  payload has no \<^verbatim>\<open>sub\<close> (or has \<^verbatim>\<open>None\<close> there).
\<close>

lemma verify_None_iff:
  "verify_jwt_token J S now t = Inr None \<longleftrightarrow>
   (case jwt_decode J t (jwt_secret_key S) [jwt_algorithm S] now of
      JWTError e \<Rightarrow> True
    | Raises c \<Rightarrow> False
    | Payload payload \<Rightarrow> map_of payload ''sub'' = None \<or> map_of payload ''sub'' = Some PNone)"
  by (auto simp: verify_jwt_token_def Let_def dict_get_def bind_err_def
      split: decoded.splits sum.splits option.splits)

text \<open>
  Claim C3. With a token library that meets \<open>jose_roundtrip\<close> for the configured key and
  algorithm, the token issued for a user at time \<open>t\<close> verifies at every time before
  \<open>t\<close> plus the configured lifetime, and verification returns the same user: the same
  \<^verbatim>\<open>id\<close>, e-mail, name and provider, with \<^verbatim>\<open>provider_data\<close> empty, since it is not a claim.
\<close>

theorem issue_verify_roundtrip:
  assumes lib: "jose_roundtrip J (jwt_secret_key S) (jwt_algorithm S)"
    and before: "t' < t + jwt_expiration_minutes S * 60000000"
  shows "verify_jwt_token J S t' (access_token (create_jwt_token J S t u)) =
           Inr (Some (u\<lparr>provider_data := []\<rparr>))"
proof -
  from lib before obtain payload where
    dec: "jwt_decode J (jwt_encode J (to_encode S t u) (jwt_secret_key S) (jwt_algorithm S))
            (jwt_secret_key S) [jwt_algorithm S] t' = Payload payload"
    and eq: "map_of payload = map_of (map (\<lambda>(c, v). (c, numeric_date v)) (to_encode S t u))"
    unfolding jose_roundtrip_def by blast
  have sub: "dict_get payload ''sub'' PNone = PStr (user_id u)"
    and prov: "dict_get payload ''provider'' (PStr ''unknown'') = PStr (provider u)"
    and mail: "dict_get payload ''email'' PNone = (case email u of None \<Rightarrow> PNone | Some e \<Rightarrow> PStr e)"
    and nm: "dict_get payload ''name'' PNone = (case name u of None \<Rightarrow> PNone | Some n \<Rightarrow> PStr n)"
    by (simp_all add: dict_get_def eq to_encode_def numeric_date_def split: option.splits)
  have "new_User (PStr (user_id u)) (case email u of None \<Rightarrow> PNone | Some e \<Rightarrow> PStr e)
          (case name u of None \<Rightarrow> PNone | Some n \<Rightarrow> PStr n) (PStr (provider u)) (PDict [])
        = Inr (u\<lparr>provider_data := []\<rparr>)"
    by (simp add: new_User_def bind_err_def split: option.splits)
  with dec sub prov mail nm show ?thesis
    by (simp add: verify_jwt_token_def create_jwt_token_def bind_err_def)
qed

theorem issue_verify_roundtrip_witness:
  "jose_roundtrip sample_jose (jwt_secret_key demo_settings) (jwt_algorithm demo_settings) \<and>
   (1799999999::int) < 0 + jwt_expiration_minutes demo_settings * 60000000 \<and>
   verify_jwt_token sample_jose demo_settings 1799999999
     (access_token (create_jwt_token sample_jose demo_settings 0
        \<lparr>user_id = ''u1'', email = Some ''a@b.com'', name = None, provider = ''oauth2'',
         provider_data = [(''id'', PStr ''u1'')]\<rparr>)) =
     Inr (Some \<lparr>user_id = ''u1'', email = Some ''a@b.com'', name = None, provider = ''oauth2'',
                provider_data = []\<rparr>)"
proof -
  have l: "jose_roundtrip sample_jose (jwt_secret_key demo_settings) (jwt_algorithm demo_settings)"
    by (rule sample_roundtrip)
  have b: "(1799999999::int) < 0 + jwt_expiration_minutes demo_settings * 60000000"
    by (simp add: demo_settings_def)
  from issue_verify_roundtrip [OF l b,
      of "\<lparr>user_id = ''u1'', email = Some ''a@b.com'', name = None, provider = ''oauth2'',
          provider_data = [(''id'', PStr ''u1'')]\<rparr>"] l b
  show ?thesis by simp
qed

end
